theory Spec2Isabelle
  imports Main
begin

section \<open>The model catalogue of \<^verbatim>\<open>docling/cli/models.py\<close>\<close>

text \<open>
  \<^verbatim>\<open>class _AvailableModels(str, Enum)\<close>: nine members, each with a string value.
\<close>

datatype AvailableModels =
    LAYOUT
  | TABLEFORMER
  | CODE_FORMULA
  | PICTURE_CLASSIFIER
  | SMOLVLM
  | SMOLDOCLING
  | SMOLDOCLING_MLX
  | GRANITE_VISION
  | EASYOCR

text \<open>The string value of a member (the right-hand sides of the class body).\<close>

fun AvailableModels_value :: "AvailableModels \<Rightarrow> string" where
  "AvailableModels_value LAYOUT = ''layout''"
| "AvailableModels_value TABLEFORMER = ''tableformer''"
| "AvailableModels_value CODE_FORMULA = ''code_formula''"
| "AvailableModels_value PICTURE_CLASSIFIER = ''picture_classifier''"
| "AvailableModels_value SMOLVLM = ''smolvlm''"
| "AvailableModels_value SMOLDOCLING = ''smoldocling''"
| "AvailableModels_value SMOLDOCLING_MLX = ''smoldocling_mlx''"
| "AvailableModels_value GRANITE_VISION = ''granite_vision''"
| "AvailableModels_value EASYOCR = ''easyocr''"

text \<open>
  \<^verbatim>\<open>list(_AvailableModels)\<close>: iterating an \<^verbatim>\<open>Enum\<close> class yields its members in
  definition order.
\<close>

definition list_AvailableModels :: "AvailableModels list" where
  "list_AvailableModels =
     [LAYOUT, TABLEFORMER, CODE_FORMULA, PICTURE_CLASSIFIER, SMOLVLM,
      SMOLDOCLING, SMOLDOCLING_MLX, GRANITE_VISION, EASYOCR]"

text \<open>The module-level list \<^verbatim>\<open>_default_models\<close>.\<close>

definition default_models :: "AvailableModels list" where
  "default_models = [LAYOUT, TABLEFORMER, CODE_FORMULA, PICTURE_CLASSIFIER, EASYOCR]"

section \<open>Python operators used by the command\<close>

text \<open>
  Truth value of an \<^verbatim>\<open>Optional[list[...]]\<close>: \<^verbatim>\<open>None\<close> and the empty list are falsy,
  every other list is truthy.
\<close>

fun truthy :: "'a list option \<Rightarrow> bool" where
  "truthy None = False"
| "truthy (Some xs) = (xs \<noteq> [])"

text \<open>
  \<^verbatim>\<open>models or alt\<close>: the left operand when it is truthy, the right operand otherwise.
\<close>

fun py_or :: "'a list option \<Rightarrow> 'a list \<Rightarrow> 'a list" where
  "py_or None alt = alt"
| "py_or (Some xs) alt = (if xs \<noteq> [] then xs else alt)"

text \<open>
  \<^verbatim>\<open>m in xs\<close> on a list compares with \<^verbatim>\<open>==\<close>. The enumeration mixes in \<^verbatim>\<open>str\<close>, so
  two members are equal when their string values are equal.
\<close>

definition py_in :: "AvailableModels \<Rightarrow> AvailableModels list \<Rightarrow> bool" where
  "py_in m xs = (AvailableModels_value m \<in> set (map AvailableModels_value xs))"

section \<open>The \<^verbatim>\<open>download\<close> command\<close>

text \<open>The parameters of one invocation, as the function \<^verbatim>\<open>download\<close> receives them.\<close>

record invocation =
  output_dir :: string
  force :: bool
  models :: "AvailableModels list option"
  all :: bool
  quiet :: bool

text \<open>The keyword arguments of the single call to \<^verbatim>\<open>download_models\<close>.\<close>

record download_models_kwargs =
  kw_output_dir :: string
  kw_force :: bool
  progress :: bool
  with_layout :: bool
  with_tableformer :: bool
  with_code_formula :: bool
  with_picture_classifier :: bool
  with_smolvlm :: bool
  with_smoldocling :: bool
  with_smoldocling_mlx :: bool
  with_granite_vision :: bool
  with_easyocr :: bool

text \<open>
  What the command does to the outside world, in program order: the call of
  \<^verbatim>\<open>logging.basicConfig\<close>, the call of \<^verbatim>\<open>download_models\<close>, and the three output calls
  \<^verbatim>\<open>typer.echo\<close>, \<^verbatim>\<open>typer.secho\<close> and \<^verbatim>\<open>console.print\<close> (all three write to standard
  output; each carries the message it is given, the library ends the line).
\<close>

datatype event =
    LoggingBasicConfig
  | DownloadModels download_models_kwargs
  | Echo string
  | Secho string
  | ConsolePrint "string list"

text \<open>
  How an invocation ends in error: the command's own \<^verbatim>\<open>typer.BadParameter\<close>, or an
  exception \<open>'e\<close> that left \<^verbatim>\<open>download_models\<close>.
\<close>

datatype 'e error = BadParameter string | Raised 'e

text \<open>Line 101: \<^verbatim>\<open>models or (list(_AvailableModels) if all else _default_models)\<close>.\<close>

definition to_download :: "AvailableModels list option \<Rightarrow> bool \<Rightarrow> AvailableModels list" where
  "to_download ms al = py_or ms (if al then list_AvailableModels else default_models)"

text \<open>Lines 102-115: the arguments handed to \<^verbatim>\<open>download_models\<close>.\<close>

definition dispatch_kwargs :: "invocation \<Rightarrow> download_models_kwargs" where
  "dispatch_kwargs a =
     (let td = to_download (models a) (all a) in
      \<lparr> kw_output_dir = output_dir a,
        kw_force = force a,
        progress = (\<not> quiet a),
        with_layout = py_in LAYOUT td,
        with_tableformer = py_in TABLEFORMER td,
        with_code_formula = py_in CODE_FORMULA td,
        with_picture_classifier = py_in PICTURE_CLASSIFIER td,
        with_smolvlm = py_in SMOLVLM td,
        with_smoldocling = py_in SMOLDOCLING td,
        with_smoldocling_mlx = py_in SMOLDOCLING_MLX td,
        with_granite_vision = py_in GRANITE_VISION td,
        with_easyocr = py_in EASYOCR td \<rparr>)"

text \<open>Lines 120-129: the two output calls of normal mode, for the returned directory.\<close>

definition newline :: string where
  "newline = [CHR 0x0A]"

definition report :: "string \<Rightarrow> event list" where
  "report dir =
     [Secho (newline @ ''Models downloaded into: '' @ dir @ ''.''),
      ConsolePrint
        [newline,
         ''Docling can now be configured for running offline using the local artifacts.''
           @ newline @ newline,
         ''Using the CLI:'',
         ''`docling --artifacts-path='' @ dir @ '' FILE`'',
         newline,
         ''Using Python: see the documentation at <https://docling-project.github.io/docling/usage>.'']]"

text \<open>
  The command. The collaborator \<^verbatim>\<open>download_models\<close> is a parameter: it either raises
  (\<open>Inl\<close>) or returns the directory (\<open>Inr\<close>). The result pairs how the invocation ends
  with the events it performed.
\<close>

definition download ::
  "(download_models_kwargs \<Rightarrow> 'e + string) \<Rightarrow> invocation \<Rightarrow> ('e error + unit) \<times> event list" where
  "download download_models a =
     (if truthy (models a) \<and> all a then
        (Inl (BadParameter
           ''Cannot simultaneously set 'all' parameter and specify models to download.''), [])
      else
        let logged = (if \<not> quiet a then [LoggingBasicConfig] else []);
            kw = dispatch_kwargs a
        in case download_models kw of
             Inl e \<Rightarrow> (Inl (Raised e), logged @ [DownloadModels kw])
           | Inr dir \<Rightarrow>
               (Inr (), logged @ [DownloadModels kw]
                          @ (if quiet a then [Echo dir] else report dir)))"

section \<open>Reading the events of an invocation\<close>

text \<open>The calls of \<^verbatim>\<open>download_models\<close> among the events, in order.\<close>

fun dispatched :: "event list \<Rightarrow> download_models_kwargs list" where
  "dispatched [] = []"
| "dispatched (DownloadModels kw # es) = kw # dispatched es"
| "dispatched (_ # es) = dispatched es"

text \<open>
  The messages written to standard output, in order: one per output call
  (\<^verbatim>\<open>console.print\<close> writes its arguments as one message).
\<close>

fun stdout_writes :: "event list \<Rightarrow> string list" where
  "stdout_writes [] = []"
| "stdout_writes (Echo s # es) = s # stdout_writes es"
| "stdout_writes (Secho s # es) = s # stdout_writes es"
| "stdout_writes (ConsolePrint ss # es) = concat ss # stdout_writes es"
| "stdout_writes (_ # es) = stdout_writes es"

section \<open>The spec's description of the default subset\<close>

text \<open>
  Modelled from the spec: the kinds of model identifier, which the source does not
  record. Section 3 of the spec lists the enumeration, in the order of the class body, as
  layout, table-structure, code/formula recognition, picture classifier, two
  vision-language variants, a platform-specific variant, a vision backbone and an OCR
  engine.
\<close>

definition vision_language_variants :: "AvailableModels list" where
  "vision_language_variants = [SMOLVLM, SMOLDOCLING]"

definition platform_specific_variant :: AvailableModels where
  "platform_specific_variant = SMOLDOCLING_MLX"

definition vision_backbone :: AvailableModels where
  "vision_backbone = GRANITE_VISION"

text \<open>
  Modelled from the spec: the default subset in the words of section 4.1, "all
  general-purpose models except the vision-language variants and the platform-specific
  variant", to be compared with \<^verbatim>\<open>_default_models\<close> of the source.
\<close>

definition spec_default_subset :: "AvailableModels list" where
  "spec_default_subset =
     filter (\<lambda>m. m \<notin> set vision_language_variants \<and> m \<noteq> platform_specific_variant)
       list_AvailableModels"

section \<open>Basic facts\<close>

text \<open>The nine string values are pairwise different, so \<^verbatim>\<open>in\<close> is list membership.\<close>

lemma AvailableModels_value_inj:
  "AvailableModels_value x = AvailableModels_value y \<longleftrightarrow> x = y"
  by (cases x; cases y; simp)

lemma py_in_set: "py_in m xs \<longleftrightarrow> m \<in> set xs"
  by (auto simp: py_in_def AvailableModels_value_inj)

lemma dispatched_append: "dispatched (xs @ ys) = dispatched xs @ dispatched ys"
  by (induction xs rule: dispatched.induct) simp_all

lemma stdout_writes_append:
  "stdout_writes (xs @ ys) = stdout_writes xs @ stdout_writes ys"
  by (induction xs rule: stdout_writes.induct) simp_all

lemma dispatched_report: "dispatched (report dir) = []"
  by (simp add: report_def)

text \<open>The two paths through the command: past the guard, and stopped by it.\<close>

lemma download_valid:
  "\<not> (truthy (models a) \<and> all a) \<Longrightarrow>
   download dl a =
     (case dl (dispatch_kwargs a) of
        Inl e \<Rightarrow>
          (Inl (Raised e),
           (if quiet a then [] else [LoggingBasicConfig])
             @ [DownloadModels (dispatch_kwargs a)])
      | Inr dir \<Rightarrow>
          (Inr (),
           (if quiet a then [] else [LoggingBasicConfig])
             @ [DownloadModels (dispatch_kwargs a)]
             @ (if quiet a then [Echo dir] else report dir)))"
  by (simp add: download_def Let_def split: sum.splits)

lemma download_invalid:
  "truthy (models a) \<and> all a \<Longrightarrow>
   download dl a =
     (Inl (BadParameter
        ''Cannot simultaneously set 'all' parameter and specify models to download.''), [])"
  by (simp add: download_def)

lemma dispatched_download:
  "dispatched (snd (download dl a)) =
     (if truthy (models a) \<and> all a then [] else [dispatch_kwargs a])"
  by (cases "truthy (models a) \<and> all a")
     (simp_all add: download_invalid download_valid dispatched_append dispatched_report
        split: sum.splits del: truthy.simps)

text \<open>A call of \<^verbatim>\<open>download_models\<close> among the events is one past the guard, with the
  arguments of lines 102-115.\<close>

lemma in_dispatched: "kw \<in> set (dispatched es) \<longleftrightarrow> DownloadModels kw \<in> set es"
  by (induction es rule: dispatched.induct) auto

lemma dispatch_reached:
  assumes "DownloadModels kw \<in> set (snd (download dl a))"
  shows "\<not> (truthy (models a) \<and> all a) \<and> kw = dispatch_kwargs a"
proof -
  from assms have "kw \<in> set (dispatched (snd (download dl a)))"
    by (simp add: in_dispatched)
  then show ?thesis
    by (simp add: dispatched_download del: truthy.simps split: if_splits)
qed

lemma LoggingBasicConfig_report: "LoggingBasicConfig \<notin> set (report dir)"
  by (simp add: report_def)

text \<open>The command reads its parameters only through the guard, \<^verbatim>\<open>quiet\<close> and the
  arguments it builds for \<^verbatim>\<open>download_models\<close>.\<close>

lemma download_cong:
  assumes "(truthy (models a) \<and> all a) = (truthy (models b) \<and> all b)"
    and "quiet a = quiet b"
    and "dispatch_kwargs a = dispatch_kwargs b"
  shows "download dl a = download dl b"
proof (cases "truthy (models a) \<and> all a")
  case True
  with assms(1) have "truthy (models b) \<and> all b"
    by blast
  with True show ?thesis
    by (simp only: download_invalid)
next
  case False
  with assms(1) have "\<not> (truthy (models b) \<and> all b)"
    by blast
  with False show ?thesis
    using assms(2,3) by (simp add: download_valid del: truthy.simps split: sum.splits)
qed

section \<open>Validation\<close>

text \<open>
  Claim C1. An invocation that gives both a non-empty explicit model list and
  \<^verbatim>\<open>--all\<close> ends in the parameter error \<^verbatim>\<open>typer.BadParameter\<close>, and it does so before
  anything else happens: the invocation performs no event at all, so
  \<^verbatim>\<open>download_models\<close> is not called and \<^verbatim>\<open>logging.basicConfig\<close> is not called.
\<close>

theorem download_models_with_all_rejected:
  assumes "models a = Some ms" and "ms \<noteq> []" and "all a"
  shows "fst (download dl a) =
           Inl (BadParameter
             ''Cannot simultaneously set 'all' parameter and specify models to download.'')
       \<and> snd (download dl a) = []
       \<and> dispatched (snd (download dl a)) = []
       \<and> LoggingBasicConfig \<notin> set (snd (download dl a))"
  using assms by (simp add: download_def)

theorem download_models_with_all_rejected_witness:
  "fst (download (\<lambda>kw. Inr (kw_output_dir kw) :: string + string)
          \<lparr>output_dir = ''/cache/models'', force = False,
           models = Some [LAYOUT, EASYOCR], all = True, quiet = False\<rparr>) =
     Inl (BadParameter
       ''Cannot simultaneously set 'all' parameter and specify models to download.'')
   \<and> snd (download (\<lambda>kw. Inr (kw_output_dir kw) :: string + string)
          \<lparr>output_dir = ''/cache/models'', force = False,
           models = Some [LAYOUT, EASYOCR], all = True, quiet = False\<rparr>) = []"
  using download_models_with_all_rejected
    [of "\<lparr>output_dir = ''/cache/models'', force = False,
          models = Some [LAYOUT, EASYOCR], all = True, quiet = False\<rparr>"
        "[LAYOUT, EASYOCR]"
        "\<lambda>kw. Inr (kw_output_dir kw) :: string + string"]
  by simp

section \<open>Resolution of the selection\<close>

text \<open>
  Claim C2, as stated: the default subset is, equivalently, all models except the
  vision-language variants and the platform-specific variant. By the spec's own list of
  kinds that description keeps the vision backbone granite_vision, which
  \<^verbatim>\<open>_default_models\<close> leaves out: an invocation with no model arguments and without
  \<^verbatim>\<open>--all\<close> does not select it and passes \<^verbatim>\<open>with_granite_vision=False\<close>.
\<close>

theorem default_subset_description_counterexample:
  "set (to_download None False) \<noteq> set spec_default_subset
   \<and> GRANITE_VISION \<in> set spec_default_subset
   \<and> GRANITE_VISION \<notin> set (to_download None False)
   \<and> \<not> with_granite_vision
         (dispatch_kwargs \<lparr>output_dir = ''/cache/models'', force = False,
            models = None, all = False, quiet = False\<rparr>)"
proof -
  have spec: "GRANITE_VISION \<in> set spec_default_subset"
    by (simp add: spec_default_subset_def list_AvailableModels_def
        vision_language_variants_def platform_specific_variant_def)
  have code: "GRANITE_VISION \<notin> set (to_download None False)"
    by (simp add: to_download_def default_models_def)
  have flag: "\<not> with_granite_vision
         (dispatch_kwargs \<lparr>output_dir = ''/cache/models'', force = False,
            models = None, all = False, quiet = False\<rparr>)"
    by (simp add: dispatch_kwargs_def py_in_set to_download_def default_models_def)
  from spec code have "set (to_download None False) \<noteq> set spec_default_subset"
    by blast
  with spec code flag show ?thesis
    by blast
qed

text \<open>
  Claim C2, amended. An invocation with no model arguments (\<^verbatim>\<open>models\<close> is \<^verbatim>\<open>None\<close>, or
  the empty list) and without \<^verbatim>\<open>--all\<close> resolves to \<^verbatim>\<open>_default_models\<close>, whose members
  are exactly layout, tableformer, code_formula, picture_classifier and easyocr:
  equivalently, all models except the vision-language variants, the platform-specific
  variant and the vision backbone. The single call of \<^verbatim>\<open>download_models\<close> gets
  \<^verbatim>\<open>True\<close> for these five flags and \<^verbatim>\<open>False\<close> for the four others (smolvlm,
  smoldocling, smoldocling_mlx, granite_vision).
\<close>

theorem download_default_selection:
  assumes "models a = None \<or> models a = Some []" and "\<not> all a"
  shows "to_download (models a) (all a) = default_models
       \<and> set default_models = {LAYOUT, TABLEFORMER, CODE_FORMULA, PICTURE_CLASSIFIER, EASYOCR}
       \<and> set default_models = set spec_default_subset - {vision_backbone}
       \<and> set default_models =
           UNIV - set vision_language_variants - {platform_specific_variant} - {vision_backbone}
       \<and> dispatched (snd (download dl a)) =
           [\<lparr> kw_output_dir = output_dir a, kw_force = force a, progress = (\<not> quiet a),
              with_layout = True, with_tableformer = True, with_code_formula = True,
              with_picture_classifier = True, with_smolvlm = False, with_smoldocling = False,
              with_smoldocling_mlx = False, with_granite_vision = False,
              with_easyocr = True \<rparr>]"
proof -
  have td: "to_download (models a) (all a) = default_models"
    using assms by (auto simp: to_download_def)
  have members: "m \<in> set default_models \<longleftrightarrow>
      m \<notin> set vision_language_variants \<and> m \<noteq> platform_specific_variant
        \<and> m \<noteq> vision_backbone" for m
    by (cases m)
       (simp_all add: default_models_def vision_language_variants_def
          platform_specific_variant_def vision_backbone_def)
  have all_listed: "m \<in> set list_AvailableModels" for m
    by (cases m) (simp_all add: list_AvailableModels_def)
  have spec: "set default_models = set spec_default_subset - {vision_backbone}"
    using members all_listed by (auto simp: spec_default_subset_def)
  have kinds: "set default_models =
      UNIV - set vision_language_variants - {platform_specific_variant} - {vision_backbone}"
    using members by auto
  have kw: "dispatch_kwargs a =
           \<lparr> kw_output_dir = output_dir a, kw_force = force a, progress = (\<not> quiet a),
              with_layout = True, with_tableformer = True, with_code_formula = True,
              with_picture_classifier = True, with_smolvlm = False, with_smoldocling = False,
              with_smoldocling_mlx = False, with_granite_vision = False,
              with_easyocr = True \<rparr>"
    by (simp add: dispatch_kwargs_def td py_in_set default_models_def)
  have "\<not> (truthy (models a) \<and> all a)"
    using assms by simp
  then have "dispatched (snd (download dl a)) = [dispatch_kwargs a]"
    by (simp add: dispatched_download)
  moreover have "set default_models =
      {LAYOUT, TABLEFORMER, CODE_FORMULA, PICTURE_CLASSIFIER, EASYOCR}"
    by (simp add: default_models_def)
  ultimately show ?thesis
    using td kw spec kinds by (simp only: simp_thms)
qed

theorem download_default_selection_witness:
  "dispatched (snd (download (\<lambda>kw. Inr (kw_output_dir kw) :: string + string)
          \<lparr>output_dir = ''/cache/models'', force = False,
           models = None, all = False, quiet = False\<rparr>)) =
     [\<lparr> kw_output_dir = ''/cache/models'', kw_force = False, progress = True,
        with_layout = True, with_tableformer = True, with_code_formula = True,
        with_picture_classifier = True, with_smolvlm = False, with_smoldocling = False,
        with_smoldocling_mlx = False, with_granite_vision = False,
        with_easyocr = True \<rparr>]"
  using download_default_selection
    [of "\<lparr>output_dir = ''/cache/models'', force = False,
          models = None, all = False, quiet = False\<rparr>"
        "\<lambda>kw. Inr (kw_output_dir kw) :: string + string"]
  by simp

text \<open>
  Claim C3. An invocation with \<^verbatim>\<open>--all\<close> and no explicit model arguments resolves to
  \<^verbatim>\<open>list(_AvailableModels)\<close>, which lists every one of the nine identifiers once; the
  single call of \<^verbatim>\<open>download_models\<close> gets \<^verbatim>\<open>True\<close> for all nine flags.
\<close>

theorem download_all_selection:
  assumes "models a = None \<or> models a = Some []" and "all a"
  shows "to_download (models a) (all a) = list_AvailableModels
       \<and> set list_AvailableModels = UNIV
       \<and> length list_AvailableModels = 9
       \<and> distinct list_AvailableModels
       \<and> dispatched (snd (download dl a)) =
           [\<lparr> kw_output_dir = output_dir a, kw_force = force a, progress = (\<not> quiet a),
              with_layout = True, with_tableformer = True, with_code_formula = True,
              with_picture_classifier = True, with_smolvlm = True, with_smoldocling = True,
              with_smoldocling_mlx = True, with_granite_vision = True,
              with_easyocr = True \<rparr>]"
proof -
  have td: "to_download (models a) (all a) = list_AvailableModels"
    using assms by (auto simp: to_download_def)
  have univ: "set list_AvailableModels = UNIV"
  proof -
    have "m \<in> set list_AvailableModels" for m
      by (cases m) (simp_all add: list_AvailableModels_def)
    then show ?thesis by blast
  qed
  have kw: "dispatch_kwargs a =
           \<lparr> kw_output_dir = output_dir a, kw_force = force a, progress = (\<not> quiet a),
              with_layout = True, with_tableformer = True, with_code_formula = True,
              with_picture_classifier = True, with_smolvlm = True, with_smoldocling = True,
              with_smoldocling_mlx = True, with_granite_vision = True,
              with_easyocr = True \<rparr>"
    by (simp add: dispatch_kwargs_def td py_in_set univ)
  have "\<not> (truthy (models a) \<and> all a)"
    using assms by auto
  then have "dispatched (snd (download dl a)) = [dispatch_kwargs a]"
    by (simp add: dispatched_download)
  with td kw univ show ?thesis
    by (simp add: list_AvailableModels_def)
qed

theorem download_all_selection_witness:
  "dispatched (snd (download (\<lambda>kw. Inr (kw_output_dir kw) :: string + string)
          \<lparr>output_dir = ''/cache/models'', force = True,
           models = None, all = True, quiet = True\<rparr>)) =
     [\<lparr> kw_output_dir = ''/cache/models'', kw_force = True, progress = False,
        with_layout = True, with_tableformer = True, with_code_formula = True,
        with_picture_classifier = True, with_smolvlm = True, with_smoldocling = True,
        with_smoldocling_mlx = True, with_granite_vision = True,
        with_easyocr = True \<rparr>]"
  using download_all_selection
    [of "\<lparr>output_dir = ''/cache/models'', force = True,
          models = None, all = True, quiet = True\<rparr>"
        "\<lambda>kw. Inr (kw_output_dir kw) :: string + string"]
  by simp

text \<open>
  Claim C4. An invocation that names a non-empty explicit list of models, without
  \<^verbatim>\<open>--all\<close>, resolves to that list as given; in the single call of \<^verbatim>\<open>download_models\<close>
  each of the nine flags is true exactly when its identifier occurs in the list, so the
  order in which the models are named does not matter.
\<close>

theorem download_explicit_selection:
  assumes "models a = Some ms" and "ms \<noteq> []" and "\<not> all a"
  shows "to_download (models a) (all a) = ms
       \<and> dispatched (snd (download dl a)) =
           [\<lparr> kw_output_dir = output_dir a, kw_force = force a, progress = (\<not> quiet a),
              with_layout = (LAYOUT \<in> set ms),
              with_tableformer = (TABLEFORMER \<in> set ms),
              with_code_formula = (CODE_FORMULA \<in> set ms),
              with_picture_classifier = (PICTURE_CLASSIFIER \<in> set ms),
              with_smolvlm = (SMOLVLM \<in> set ms),
              with_smoldocling = (SMOLDOCLING \<in> set ms),
              with_smoldocling_mlx = (SMOLDOCLING_MLX \<in> set ms),
              with_granite_vision = (GRANITE_VISION \<in> set ms),
              with_easyocr = (EASYOCR \<in> set ms) \<rparr>]"
proof -
  have td: "to_download (models a) (all a) = ms"
    using assms by (simp add: to_download_def)
  have "\<not> (truthy (models a) \<and> all a)"
    using assms by simp
  then have "dispatched (snd (download dl a)) = [dispatch_kwargs a]"
    by (simp add: dispatched_download)
  with td show ?thesis
    by (simp add: dispatch_kwargs_def py_in_set)
qed

theorem download_explicit_selection_witness:
  "dispatched (snd (download (\<lambda>kw. Inr (kw_output_dir kw) :: string + string)
          \<lparr>output_dir = ''/cache/models'', force = False,
           models = Some [EASYOCR, SMOLVLM, LAYOUT], all = False, quiet = False\<rparr>)) =
     [\<lparr> kw_output_dir = ''/cache/models'', kw_force = False, progress = True,
        with_layout = True, with_tableformer = False, with_code_formula = False,
        with_picture_classifier = False, with_smolvlm = True, with_smoldocling = False,
        with_smoldocling_mlx = False, with_granite_vision = False,
        with_easyocr = True \<rparr>]"
  using download_explicit_selection
    [of "\<lparr>output_dir = ''/cache/models'', force = False,
          models = Some [EASYOCR, SMOLVLM, LAYOUT], all = False, quiet = False\<rparr>"
        "[EASYOCR, SMOLVLM, LAYOUT]"
        "\<lambda>kw. Inr (kw_output_dir kw) :: string + string"]
  by simp

section \<open>Dispatch and output\<close>

text \<open>
  Claim C5. In quiet mode, an invocation that reaches its output step performs exactly
  two events: the call of \<^verbatim>\<open>download_models\<close> and one \<^verbatim>\<open>typer.echo\<close> of the directory
  that call returned. So the only message written to standard output is the returned
  directory: there is no success message and no usage hint.
\<close>

theorem download_quiet_output:
  assumes "quiet a" and "fst (download dl a) = Inr ()"
  shows "\<exists>kw dir. dl kw = Inr dir
           \<and> snd (download dl a) = [DownloadModels kw, Echo dir]
           \<and> stdout_writes (snd (download dl a)) = [dir]"
proof -
  have valid: "\<not> (truthy (models a) \<and> all a)"
    using assms(2) by (auto simp: download_invalid simp del: truthy.simps)
  show ?thesis
  proof (cases "dl (dispatch_kwargs a)")
    case (Inl e)
    with valid assms(2) show ?thesis
      by (simp add: download_valid del: truthy.simps)
  next
    case (Inr dir)
    with valid assms(1) have "snd (download dl a) = [DownloadModels (dispatch_kwargs a), Echo dir]"
      by (simp add: download_valid del: truthy.simps)
    with Inr show ?thesis by simp
  qed
qed

theorem download_quiet_output_witness:
  "quiet \<lparr>output_dir = ''/cache/models'', force = False,
           models = Some [LAYOUT], all = False, quiet = True\<rparr>
   \<and> fst (download (\<lambda>kw. Inr (kw_output_dir kw @ ''/v1'') :: string + string)
          \<lparr>output_dir = ''/cache/models'', force = False,
           models = Some [LAYOUT], all = False, quiet = True\<rparr>) = Inr ()
   \<and> stdout_writes (snd (download (\<lambda>kw. Inr (kw_output_dir kw @ ''/v1'') :: string + string)
          \<lparr>output_dir = ''/cache/models'', force = False,
           models = Some [LAYOUT], all = False, quiet = True\<rparr>)) = [''/cache/models/v1'']"
  using download_quiet_output
    [of "\<lparr>output_dir = ''/cache/models'', force = False,
          models = Some [LAYOUT], all = False, quiet = True\<rparr>"
        "\<lambda>kw. Inr (kw_output_dir kw @ ''/v1'') :: string + string"]
  by (simp add: download_def dispatch_kwargs_def Let_def)

text \<open>
  Claim C6. When the call of \<^verbatim>\<open>download_models\<close> raises, the invocation ends with that
  same exception: the command installs no handler. The call is the last event and the
  only call of \<^verbatim>\<open>download_models\<close> (no retry), and nothing is written to standard
  output after it (no recovery, no suppression).
\<close>

theorem download_propagates_failure:
  assumes "DownloadModels kw \<in> set (snd (download dl a))" and "dl kw = Inl e"
  shows "fst (download dl a) = Inl (Raised e)
       \<and> dispatched (snd (download dl a)) = [kw]
       \<and> stdout_writes (snd (download dl a)) = []
       \<and> last (snd (download dl a)) = DownloadModels kw"
proof -
  from dispatch_reached [OF assms(1)]
  have valid: "\<not> (truthy (models a) \<and> all a)" and kw: "kw = dispatch_kwargs a"
    by blast+
  from assms(2) kw have "dl (dispatch_kwargs a) = Inl e"
    by simp
  with valid have "download dl a =
      (Inl (Raised e), (if quiet a then [] else [LoggingBasicConfig]) @ [DownloadModels kw])"
    by (simp add: download_valid kw del: truthy.simps)
  then show ?thesis
    by simp
qed

theorem download_propagates_failure_witness:
  "DownloadModels
      \<lparr> kw_output_dir = ''/cache/models'', kw_force = False, progress = True,
        with_layout = True, with_tableformer = True, with_code_formula = True,
        with_picture_classifier = True, with_smolvlm = False, with_smoldocling = False,
        with_smoldocling_mlx = False, with_granite_vision = False,
        with_easyocr = True \<rparr>
     \<in> set (snd (download (\<lambda>kw. Inl ''ConnectionError'' :: string + string)
          \<lparr>output_dir = ''/cache/models'', force = False,
           models = None, all = False, quiet = False\<rparr>))
   \<and> fst (download (\<lambda>kw. Inl ''ConnectionError'' :: string + string)
          \<lparr>output_dir = ''/cache/models'', force = False,
           models = None, all = False, quiet = False\<rparr>) = Inl (Raised ''ConnectionError'')
   \<and> stdout_writes (snd (download (\<lambda>kw. Inl ''ConnectionError'' :: string + string)
          \<lparr>output_dir = ''/cache/models'', force = False,
           models = None, all = False, quiet = False\<rparr>)) = []"
  using download_propagates_failure
    [of "\<lparr> kw_output_dir = ''/cache/models'', kw_force = False, progress = True,
        with_layout = True, with_tableformer = True, with_code_formula = True,
        with_picture_classifier = True, with_smolvlm = False, with_smoldocling = False,
        with_smoldocling_mlx = False, with_granite_vision = False,
        with_easyocr = True \<rparr>"
        "\<lambda>kw. Inl ''ConnectionError'' :: string + string"
        "\<lparr>output_dir = ''/cache/models'', force = False,
          models = None, all = False, quiet = False\<rparr>"
        "''ConnectionError''"]
  by (simp add: download_def dispatch_kwargs_def Let_def to_download_def default_models_def py_in_set)

text \<open>
  Claim C7. Whenever an invocation calls \<^verbatim>\<open>download_models\<close>, the \<^verbatim>\<open>progress\<close> argument
  is the negation of \<^verbatim>\<open>quiet\<close>, and \<^verbatim>\<open>output_dir\<close> and \<^verbatim>\<open>force\<close> are the
  invocation's own values, unchanged.
\<close>

theorem download_passes_arguments:
  assumes "DownloadModels kw \<in> set (snd (download dl a))"
  shows "progress kw = (\<not> quiet a)
       \<and> kw_output_dir kw = output_dir a
       \<and> kw_force kw = force a"
  using dispatch_reached [OF assms] by (simp add: dispatch_kwargs_def Let_def)

theorem download_passes_arguments_witness:
  "DownloadModels
      \<lparr> kw_output_dir = ''/tmp/m'', kw_force = True, progress = False,
        with_layout = False, with_tableformer = True, with_code_formula = False,
        with_picture_classifier = False, with_smolvlm = False, with_smoldocling = False,
        with_smoldocling_mlx = False, with_granite_vision = False,
        with_easyocr = False \<rparr>
     \<in> set (snd (download (\<lambda>kw. Inr (kw_output_dir kw) :: string + string)
          \<lparr>output_dir = ''/tmp/m'', force = True,
           models = Some [TABLEFORMER], all = False, quiet = True\<rparr>))
   \<and> progress \<lparr> kw_output_dir = ''/tmp/m'', kw_force = True, progress = False,
        with_layout = False, with_tableformer = True, with_code_formula = False,
        with_picture_classifier = False, with_smolvlm = False, with_smoldocling = False,
        with_smoldocling_mlx = False, with_granite_vision = False,
        with_easyocr = False \<rparr>
      = (\<not> quiet \<lparr>output_dir = ''/tmp/m'', force = True,
           models = Some [TABLEFORMER], all = False, quiet = True\<rparr>)"
  using download_passes_arguments
    [of "\<lparr> kw_output_dir = ''/tmp/m'', kw_force = True, progress = False,
        with_layout = False, with_tableformer = True, with_code_formula = False,
        with_picture_classifier = False, with_smolvlm = False, with_smoldocling = False,
        with_smoldocling_mlx = False, with_granite_vision = False,
        with_easyocr = False \<rparr>"
        "\<lambda>kw. Inr (kw_output_dir kw) :: string + string"
        "\<lparr>output_dir = ''/tmp/m'', force = True,
           models = Some [TABLEFORMER], all = False, quiet = True\<rparr>"]
  by (simp add: download_def dispatch_kwargs_def Let_def to_download_def py_in_set)

section \<open>Logging\<close>

text \<open>
  Claim C8, as stated: logging is configured if and only if \<^verbatim>\<open>quiet\<close> is false. The
  guard of lines 90-93 comes before the call of \<^verbatim>\<open>logging.basicConfig\<close>: an invocation
  with a non-empty model list, \<^verbatim>\<open>--all\<close> and \<^verbatim>\<open>quiet\<close> false stops at the guard and
  never configures logging, although \<^verbatim>\<open>quiet\<close> is false.
\<close>

theorem logging_iff_not_quiet_counterexample:
  "\<not> (LoggingBasicConfig \<in> set (snd (download (\<lambda>kw. Inr (kw_output_dir kw) :: string + string)
          \<lparr>output_dir = ''/cache/models'', force = False,
           models = Some [LAYOUT], all = True, quiet = False\<rparr>))
      \<longleftrightarrow> \<not> quiet \<lparr>output_dir = ''/cache/models'', force = False,
           models = Some [LAYOUT], all = True, quiet = False\<rparr>)"
  by (simp add: download_def)

text \<open>
  Claim C8, amended: for every invocation that passes the guard (not both a non-empty
  model list and \<^verbatim>\<open>--all\<close>), \<^verbatim>\<open>logging.basicConfig\<close> is called if and only if
  \<^verbatim>\<open>quiet\<close> is false; when it is called, it is the first event and the call of
  \<^verbatim>\<open>download_models\<close> follows it directly; in quiet mode the events start with the call
  of \<^verbatim>\<open>download_models\<close> and logging is never touched.
\<close>

theorem download_logging_when_valid:
  assumes "\<not> (truthy (models a) \<and> all a)"
  shows "(LoggingBasicConfig \<in> set (snd (download dl a))) = (\<not> quiet a)
       \<and> (\<exists>rest. snd (download dl a) =
             (if quiet a then [] else [LoggingBasicConfig])
               @ DownloadModels (dispatch_kwargs a) # rest
             \<and> LoggingBasicConfig \<notin> set rest)"
proof (cases "dl (dispatch_kwargs a)")
  case (Inl e)
  with assms have "snd (download dl a) =
      (if quiet a then [] else [LoggingBasicConfig]) @ DownloadModels (dispatch_kwargs a) # []"
    by (simp add: download_valid del: truthy.simps)
  then show ?thesis
    by (cases "quiet a") simp_all
next
  case (Inr dir)
  with assms have "snd (download dl a) =
      (if quiet a then [] else [LoggingBasicConfig])
        @ DownloadModels (dispatch_kwargs a) # (if quiet a then [Echo dir] else report dir)"
    by (simp add: download_valid del: truthy.simps)
  then show ?thesis
    by (cases "quiet a") (simp_all add: LoggingBasicConfig_report)
qed

theorem download_logging_when_valid_witness:
  "\<not> (truthy (models \<lparr>output_dir = ''/cache/models'', force = False,
           models = None, all = True, quiet = False\<rparr>)
       \<and> all \<lparr>output_dir = ''/cache/models'', force = False,
           models = None, all = True, quiet = False\<rparr>)
   \<and> LoggingBasicConfig \<in> set (snd (download (\<lambda>kw. Inr (kw_output_dir kw) :: string + string)
          \<lparr>output_dir = ''/cache/models'', force = False,
           models = None, all = True, quiet = False\<rparr>))
   \<and> LoggingBasicConfig \<notin> set (snd (download (\<lambda>kw. Inr (kw_output_dir kw) :: string + string)
          \<lparr>output_dir = ''/cache/models'', force = False,
           models = None, all = True, quiet = True\<rparr>))"
  using download_logging_when_valid
    [of "\<lparr>output_dir = ''/cache/models'', force = False,
           models = None, all = True, quiet = False\<rparr>"
        "\<lambda>kw. Inr (kw_output_dir kw) :: string + string"]
    download_logging_when_valid
    [of "\<lparr>output_dir = ''/cache/models'', force = False,
           models = None, all = True, quiet = True\<rparr>"
        "\<lambda>kw. Inr (kw_output_dir kw) :: string + string"]
  by simp

section \<open>Empty and repeated model lists\<close>

text \<open>
  Claim C9. An empty explicit model list behaves as no list at all: the invocation has
  the same result and events as with \<^verbatim>\<open>None\<close>. With \<^verbatim>\<open>--all\<close> it does not end in the
  parameter error, the selection is \<^verbatim>\<open>list(_AvailableModels)\<close> and all nine flags are
  true; without \<^verbatim>\<open>--all\<close> the selection is \<^verbatim>\<open>_default_models\<close> and the five default
  flags are true.
\<close>

theorem download_empty_list_as_none:
  "download dl (a\<lparr>models := Some []\<rparr>) = download dl (a\<lparr>models := None\<rparr>)
   \<and> fst (download dl (a\<lparr>models := Some [], all := True\<rparr>)) \<noteq> Inl (BadParameter msg)
   \<and> to_download (Some []) True = list_AvailableModels
   \<and> to_download (Some []) False = default_models
   \<and> dispatched (snd (download dl (a\<lparr>models := Some [], all := True\<rparr>))) =
       [\<lparr> kw_output_dir = output_dir a, kw_force = force a, progress = (\<not> quiet a),
          with_layout = True, with_tableformer = True, with_code_formula = True,
          with_picture_classifier = True, with_smolvlm = True, with_smoldocling = True,
          with_smoldocling_mlx = True, with_granite_vision = True,
          with_easyocr = True \<rparr>]
   \<and> dispatched (snd (download dl (a\<lparr>models := Some [], all := False\<rparr>))) =
       [\<lparr> kw_output_dir = output_dir a, kw_force = force a, progress = (\<not> quiet a),
          with_layout = True, with_tableformer = True, with_code_formula = True,
          with_picture_classifier = True, with_smolvlm = False, with_smoldocling = False,
          with_smoldocling_mlx = False, with_granite_vision = False,
          with_easyocr = True \<rparr>]"
proof -
  have same: "download dl (a\<lparr>models := Some []\<rparr>) = download dl (a\<lparr>models := None\<rparr>)"
    by (rule download_cong) (simp_all add: dispatch_kwargs_def to_download_def)
  have td: "to_download (Some []) True = list_AvailableModels"
           "to_download (Some []) False = default_models"
    by (simp_all add: to_download_def)
  have d1: "dispatched (snd (download dl (a\<lparr>models := Some [], all := True\<rparr>))) =
              [dispatch_kwargs (a\<lparr>models := Some [], all := True\<rparr>)]"
    by (simp add: dispatched_download)
  have d2: "dispatched (snd (download dl (a\<lparr>models := Some [], all := False\<rparr>))) =
              [dispatch_kwargs (a\<lparr>models := Some [], all := False\<rparr>)]"
    by (simp add: dispatched_download)
  have k1: "dispatch_kwargs (a\<lparr>models := Some [], all := True\<rparr>) =
       \<lparr> kw_output_dir = output_dir a, kw_force = force a, progress = (\<not> quiet a),
          with_layout = True, with_tableformer = True, with_code_formula = True,
          with_picture_classifier = True, with_smolvlm = True, with_smoldocling = True,
          with_smoldocling_mlx = True, with_granite_vision = True,
          with_easyocr = True \<rparr>"
    by (simp add: dispatch_kwargs_def td py_in_set list_AvailableModels_def)
  have k2: "dispatch_kwargs (a\<lparr>models := Some [], all := False\<rparr>) =
       \<lparr> kw_output_dir = output_dir a, kw_force = force a, progress = (\<not> quiet a),
          with_layout = True, with_tableformer = True, with_code_formula = True,
          with_picture_classifier = True, with_smolvlm = False, with_smoldocling = False,
          with_smoldocling_mlx = False, with_granite_vision = False,
          with_easyocr = True \<rparr>"
    by (simp add: dispatch_kwargs_def td py_in_set default_models_def)
  have ok: "fst (download dl (a\<lparr>models := Some [], all := True\<rparr>)) \<noteq> Inl (BadParameter msg)"
    by (simp add: download_valid split: sum.splits)
  from same ok td d1 d2 k1 k2 show ?thesis
    by simp
qed

theorem download_empty_list_as_none_witness:
  "dispatched (snd (download (\<lambda>kw. Inr (kw_output_dir kw) :: string + string)
          \<lparr>output_dir = ''/cache/models'', force = False,
           models = Some [], all = True, quiet = True\<rparr>)) =
       [\<lparr> kw_output_dir = ''/cache/models'', kw_force = False, progress = False,
          with_layout = True, with_tableformer = True, with_code_formula = True,
          with_picture_classifier = True, with_smolvlm = True, with_smoldocling = True,
          with_smoldocling_mlx = True, with_granite_vision = True,
          with_easyocr = True \<rparr>]"
  using download_empty_list_as_none
    [of "\<lambda>kw. Inr (kw_output_dir kw) :: string + string"
        "\<lparr>output_dir = ''/cache/models'', force = False,
           models = Some [], all = True, quiet = True\<rparr>",
     THEN conjunct2, THEN conjunct2, THEN conjunct2, THEN conjunct2, THEN conjunct1]
  by simp

text \<open>
  Claim C10. The arguments built for \<^verbatim>\<open>download_models\<close> depend on an explicit list only
  through the set of its members: two lists with the same members, in any order and with
  any repetitions, give the same arguments, the same dispatched call and indeed the same
  whole invocation. In particular, naming a model twice changes nothing.
\<close>

theorem download_flags_depend_on_set:
  assumes "set xs = set ys"
  shows "dispatch_kwargs (a\<lparr>models := Some xs\<rparr>) = dispatch_kwargs (a\<lparr>models := Some ys\<rparr>)
       \<and> dispatched (snd (download dl (a\<lparr>models := Some xs\<rparr>))) =
           dispatched (snd (download dl (a\<lparr>models := Some ys\<rparr>)))
       \<and> download dl (a\<lparr>models := Some xs\<rparr>) = download dl (a\<lparr>models := Some ys\<rparr>)
       \<and> download dl (a\<lparr>models := Some (x # x # xs)\<rparr>) =
           download dl (a\<lparr>models := Some (x # xs)\<rparr>)"
proof -
  have empty: "xs = [] \<longleftrightarrow> ys = []"
    using assms by (metis set_empty)
  have kw_eq: "dispatch_kwargs (a\<lparr>models := Some us\<rparr>) = dispatch_kwargs (a\<lparr>models := Some vs\<rparr>)"
    if "set us = set vs" and "us = [] \<longleftrightarrow> vs = []" for us vs
    using that by (simp add: dispatch_kwargs_def to_download_def py_in_set)
  have dl_eq: "download dl (a\<lparr>models := Some us\<rparr>) = download dl (a\<lparr>models := Some vs\<rparr>)"
    if "set us = set vs" and "us = [] \<longleftrightarrow> vs = []" for us vs
    using that kw_eq [OF that] by (intro download_cong) simp_all
  have dup: "download dl (a\<lparr>models := Some (x # x # xs)\<rparr>) =
           download dl (a\<lparr>models := Some (x # xs)\<rparr>)"
    by (rule dl_eq) simp_all
  from kw_eq [OF assms empty] dl_eq [OF assms empty] dup show ?thesis
    by simp
qed

theorem download_flags_depend_on_set_witness:
  "set [EASYOCR, LAYOUT, EASYOCR] = set [LAYOUT, EASYOCR]
   \<and> dispatched (snd (download (\<lambda>kw. Inr (kw_output_dir kw) :: string + string)
          \<lparr>output_dir = ''/cache/models'', force = False,
           models = Some [EASYOCR, LAYOUT, EASYOCR], all = False, quiet = True\<rparr>)) =
     dispatched (snd (download (\<lambda>kw. Inr (kw_output_dir kw) :: string + string)
          \<lparr>output_dir = ''/cache/models'', force = False,
           models = Some [LAYOUT, EASYOCR], all = False, quiet = True\<rparr>))"
proof -
  have s: "set [EASYOCR, LAYOUT, EASYOCR] = set [LAYOUT, EASYOCR]"
    by auto
  show ?thesis
    using s download_flags_depend_on_set
      [OF s, of "\<lparr>output_dir = ''/cache/models'', force = False,
           models = None, all = False, quiet = True\<rparr>"
         "\<lambda>kw. Inr (kw_output_dir kw) :: string + string"]
    by simp
qed

end
